theory Spec2Isabelle
  imports Main
begin

section \<open>The AWS Batch operator: data model\<close>

text \<open>
  The development embeds \<^verbatim>\<open>airflow/providers/amazon/aws/operators/batch.py\<close>,
  class \<^verbatim>\<open>BatchOperator\<close>.  Python dictionaries with string keys are association
  lists (a lookup \<^verbatim>\<open>d[k]\<close> is \<open>map_of d k\<close>, and \<open>None\<close> there is Python's
  \<^verbatim>\<open>KeyError\<close>); the empty dictionary \<^verbatim>\<open>{}\<close> is \<open>[]\<close> and is the only falsy one.
\<close>

type_synonym pydict = "(string \<times> string) list"

datatype pyval = PyNone | PyStr string | PyDict pydict

text \<open>Keyword arguments of a call, in the order the source writes them.\<close>

type_synonym kwargs = "(string \<times> pyval) list"

text \<open>
  Exceptions.  Every value of this type is an instance of Python's \<^verbatim>\<open>Exception\<close>, so
  \<^verbatim>\<open>except Exception\<close> catches all of them and \<^verbatim>\<open>except KeyError\<close> only the second
  constructor.  \<^verbatim>\<open>AirflowException\<close> is built from a message or from another exception.
  \<open>ClientError\<close> stands for whatever the remote client raises (network, validation,
  throttling) and \<open>WaiterError\<close> for a wait that times out or fails.
\<close>

datatype exn =
    AirflowException exn_arg
  | KeyError string
  | TypeError string
  | ClientError string
  | WaiterError string
  | JobFailedError "string option" "string option"
and exn_arg = Msg string | Exc exn

fun is_KeyError :: "exn \<Rightarrow> bool" where
  "is_KeyError (KeyError k) = True"
| "is_KeyError e = False"

text \<open>A caller-supplied waiters object; the number is its identity.\<close>

datatype waiters = BatchWaiters nat

text \<open>The arguments \<^verbatim>\<open>__init__\<close> hands to \<^verbatim>\<open>BatchClientHook\<close>.\<close>

record BatchClientHook =
  max_retries :: "int option"
  status_retries :: "int option"
  aws_conn_id :: "string option"
  region_name :: "string option"

record BatchOperator =
  job_id :: "string option"
  job_name :: string
  job_definition :: string
  job_queue :: string
  overrides :: pydict
  array_properties :: pydict
  parameters :: pydict
  waiters :: "waiters option"
  tags :: pydict
  wait_for_completion :: bool
  hook :: BatchClientHook

text \<open>\<^verbatim>\<open>x or {}\<close> for an optional dictionary: \<^verbatim>\<open>None\<close> and \<^verbatim>\<open>{}\<close> are falsy.\<close>

definition or_empty :: "pydict option \<Rightarrow> pydict" where
  "or_empty d = (case d of None \<Rightarrow> [] | Some x \<Rightarrow> (if x = [] then [] else x))"

text \<open>\<^verbatim>\<open>BatchOperator.__init__\<close> (lines 125 to 161), keyword arguments in source order.\<close>

definition BatchOperator_init ::
  "string \<Rightarrow> string \<Rightarrow> string \<Rightarrow> pydict \<Rightarrow> pydict option \<Rightarrow> pydict option \<Rightarrow>
   string option \<Rightarrow> waiters option \<Rightarrow> int option \<Rightarrow> int option \<Rightarrow> string option \<Rightarrow>
   string option \<Rightarrow> pydict option \<Rightarrow> bool \<Rightarrow> BatchOperator" where
  "BatchOperator_init a_job_name a_job_definition a_job_queue a_overrides a_array_properties
     a_parameters a_job_id a_waiters a_max_retries a_status_retries a_aws_conn_id
     a_region_name a_tags a_wait_for_completion =
   \<lparr> job_id = a_job_id,
     job_name = a_job_name,
     job_definition = a_job_definition,
     job_queue = a_job_queue,
     overrides = or_empty (Some a_overrides),
     array_properties = or_empty a_array_properties,
     parameters = or_empty a_parameters,
     waiters = a_waiters,
     tags = or_empty a_tags,
     wait_for_completion = a_wait_for_completion,
     hook = \<lparr> max_retries = a_max_retries, status_retries = a_status_retries,
              aws_conn_id = a_aws_conn_id, region_name = a_region_name \<rparr> \<rparr>"

section \<open>The collaborators and the observable trace\<close>

datatype link =
    BatchJobDetailsLink
  | BatchJobDefinitionLink
  | BatchJobQueueLink
  | CloudWatchEventsLink

datatype level = INFO | WARNING | ERROR

text \<open>
  What the operator does to the outside, in order: a log record (level, format string,
  arguments), a call of the boto3 client, of the hook, of the waiters object, or of a
  link's \<^verbatim>\<open>persist\<close>.
\<close>

datatype event =
    Log level string "pyval list"
  | ClientSubmitJob kwargs
  | ClientTerminateJob kwargs
  | HookGetJobDescription string
  | HookWaitForJob string
  | WaitersWaitForJob waiters string
  | HookGetJobAwslogsInfo string
  | HookCheckJobSuccess string
  | LinkPersist link kwargs

text \<open>
  The remote service and the hook are not part of the operator.  Their behaviour is a
  parameter: each operation maps the remote state \<open>'r\<close> to a result (an exception or a
  value) and the next remote state.  \<^verbatim>\<open>hook.conn_region_name\<close> and
  \<^verbatim>\<open>hook.conn_partition\<close> are constants of the connection.
\<close>

record 'r env =
  client_submit_job :: "kwargs \<Rightarrow> 'r \<Rightarrow> (exn + pydict) \<times> 'r"
  client_terminate_job :: "kwargs \<Rightarrow> 'r \<Rightarrow> (exn + pydict) \<times> 'r"
  hook_get_job_description :: "string \<Rightarrow> 'r \<Rightarrow> (exn + pydict) \<times> 'r"
  hook_wait_for_job :: "string \<Rightarrow> 'r \<Rightarrow> (exn + unit) \<times> 'r"
  waiters_wait_for_job :: "waiters \<Rightarrow> string \<Rightarrow> 'r \<Rightarrow> (exn + unit) \<times> 'r"
  hook_get_job_awslogs_info :: "string \<Rightarrow> 'r \<Rightarrow> (exn + pydict option) \<times> 'r"
  conn_region_name :: string
  conn_partition :: string

text \<open>The state one method call runs in: the operator's own fields, the remote state and
  the trace so far.\<close>

record 'r sys =
  self :: BatchOperator
  remote :: 'r
  trace :: "event list"

definition emit :: "event \<Rightarrow> 'r sys \<Rightarrow> 'r sys" where
  "emit e s = s\<lparr>trace := trace s @ [e]\<rparr>"

definition log_info :: "string \<Rightarrow> pyval list \<Rightarrow> 'r sys \<Rightarrow> 'r sys" where
  "log_info fmt args s = emit (Log INFO fmt args) s"

definition log_warning :: "string \<Rightarrow> pyval list \<Rightarrow> 'r sys \<Rightarrow> 'r sys" where
  "log_warning fmt args s = emit (Log WARNING fmt args) s"

definition log_error :: "string \<Rightarrow> pyval list \<Rightarrow> 'r sys \<Rightarrow> 'r sys" where
  "log_error fmt args s = emit (Log ERROR fmt args) s"

text \<open>A call of a collaborator: the event is recorded, the remote state advances, and the
  result (exception or value) comes back.\<close>

definition call :: "event \<Rightarrow> ('r \<Rightarrow> (exn + 'a) \<times> 'r) \<Rightarrow> 'r sys \<Rightarrow> (exn + 'a) \<times> 'r sys" where
  "call e f s = (case f (remote s) of (res, r') \<Rightarrow> (res, s\<lparr>remote := r', trace := trace s @ [e]\<rparr>))"

definition opt_val :: "string option \<Rightarrow> pyval" where
  "opt_val x = (case x of None \<Rightarrow> PyNone | Some v \<Rightarrow> PyStr v)"

text \<open>Modelled from the spec: the link classes' \<^verbatim>\<open>persist\<close> (module
  \<^verbatim>\<open>airflow.providers.amazon.aws.links\<close>) is not part of the source at hand; the spec's
  link-persistence collaborator is purely observational and returns nothing the operator
  consumes, so a call is an event and nothing else.\<close>

definition persist :: "link \<Rightarrow> kwargs \<Rightarrow> 'r sys \<Rightarrow> 'r sys" where
  "persist l kw s = emit (LinkPersist l kw) s"

section \<open>\<^verbatim>\<open>submit_job\<close>\<close>

definition submit_kwargs :: "BatchOperator \<Rightarrow> kwargs" where
  "submit_kwargs op =
     [(''jobName'', PyStr (job_name op)),
      (''jobQueue'', PyStr (job_queue op)),
      (''jobDefinition'', PyStr (job_definition op)),
      (''arrayProperties'', PyDict (array_properties op)),
      (''parameters'', PyDict (parameters op)),
      (''containerOverrides'', PyDict (overrides op)),
      (''tags'', PyDict (tags op))]"

text \<open>Lines 180 to 219.  The \<^verbatim>\<open>try\<close> block holds the client call only; the lookup
  \<^verbatim>\<open>response["jobId"]\<close> comes after it.\<close>

definition submit_job :: "'r env \<Rightarrow> 'r sys \<Rightarrow> (exn + unit) \<times> 'r sys" where
  "submit_job env s0 =
    (let s1 = log_info ''Running AWS Batch job - job definition: %s - on queue %s''
                [PyStr (job_definition (self s0)), PyStr (job_queue (self s0))] s0;
         s2 = log_info ''AWS Batch job - container overrides: %s''
                [PyDict (overrides (self s1))] s1
     in case call (ClientSubmitJob (submit_kwargs (self s2)))
               (client_submit_job env (submit_kwargs (self s2))) s2 of
          (Inl e, s3) \<Rightarrow>
            (let s4 = log_error
                        ''AWS Batch job failed submission - job definition: %s - on queue %s''
                        [PyStr (job_definition (self s3)), PyStr (job_queue (self s3))] s3
             in (Inl (AirflowException (Exc e)), s4))
        | (Inr response, s3) \<Rightarrow>
            (case map_of response ''jobId'' of
               None \<Rightarrow> (Inl (KeyError ''jobId''), s3)
             | Some jid \<Rightarrow>
                 (let s4 = s3\<lparr>self := (self s3)\<lparr>job_id := Some jid\<rparr>\<rparr>;
                      s5 = log_info ''AWS Batch job (%s) started: %s''
                             [opt_val (job_id (self s4)), PyDict response] s4;
                      s6 = persist BatchJobDetailsLink
                             [(''region_name'', PyStr (conn_region_name env)),
                              (''aws_partition'', PyStr (conn_partition env)),
                              (''job_id'', opt_val (job_id (self s5)))] s5
                  in (Inr (), s6))))"

section \<open>\<^verbatim>\<open>monitor_job\<close>\<close>

text \<open>Modelled from the spec: \<^verbatim>\<open>BatchClientHook.check_job_success\<close> (module
  \<^verbatim>\<open>airflow.providers.amazon.aws.hooks.batch_client\<close>) is not part of the source at hand.
  By the spec it is a final classification check against the remote service: it
  describes the job again, re-confirms the terminal status \<^verbatim>\<open>SUCCEEDED\<close>, and otherwise
  fails with a \<^verbatim>\<open>JobFailedError\<close> carrying the service-reported status and reason.\<close>

definition hook_check_job_success :: "'r env \<Rightarrow> string \<Rightarrow> 'r \<Rightarrow> (exn + unit) \<times> 'r" where
  "hook_check_job_success env jid r =
     (case hook_get_job_description env jid r of
        (Inl e, r') \<Rightarrow> (Inl e, r')
      | (Inr job, r') \<Rightarrow>
          (if map_of job ''status'' = Some ''SUCCEEDED'' then (Inr (), r')
           else (Inl (JobFailedError (map_of job ''status'') (map_of job ''statusReason'')), r')))"

definition job_id_not_found :: exn where
  "job_id_not_found = AirflowException (Msg ''AWS Batch job - job_id was not found'')"

definition arn_warning :: string where
  "arn_warning = ''AWS Batch job (%s) can't get Job Definition ARN and Job Queue ARN''"

text \<open>Lines 233 to 259: the \<^verbatim>\<open>try\<close> / \<^verbatim>\<open>except KeyError\<close> / \<^verbatim>\<open>else\<close> statement.  A
  \<^verbatim>\<open>KeyError\<close> from the call itself or from one of the two lookups is caught; any other
  exception of the call propagates.  \<open>jid\<close> is \<^verbatim>\<open>self.job_id\<close>, which nothing in
  \<^verbatim>\<open>monitor_job\<close> assigns.\<close>

definition monitor_arns :: "'r env \<Rightarrow> string \<Rightarrow> 'r sys \<Rightarrow> (exn + unit) \<times> 'r sys" where
  "monitor_arns env jid s0 =
     (case call (HookGetJobDescription jid) (hook_get_job_description env jid) s0 of
        (Inl e, s1) \<Rightarrow>
          (if is_KeyError e then (Inr (), log_warning arn_warning [PyStr jid] s1)
           else (Inl e, s1))
      | (Inr job_desc, s1) \<Rightarrow>
          (case map_of job_desc ''jobDefinition'' of
             None \<Rightarrow> (Inr (), log_warning arn_warning [PyStr jid] s1)
           | Some job_definition_arn \<Rightarrow>
               (case map_of job_desc ''jobQueue'' of
                  None \<Rightarrow> (Inr (), log_warning arn_warning [PyStr jid] s1)
                | Some job_queue_arn \<Rightarrow>
                    (let s2 = log_info
                                ''AWS Batch job (%s) Job Definition ARN: %r, Job Queue ARN: %r''
                                [PyStr jid, PyStr job_definition_arn, PyStr job_queue_arn] s1;
                         s3 = persist BatchJobDefinitionLink
                                [(''region_name'', PyStr (conn_region_name env)),
                                 (''aws_partition'', PyStr (conn_partition env)),
                                 (''job_definition_arn'', PyStr job_definition_arn)] s2;
                         s4 = persist BatchJobQueueLink
                                [(''region_name'', PyStr (conn_region_name env)),
                                 (''aws_partition'', PyStr (conn_partition env)),
                                 (''job_queue_arn'', PyStr job_queue_arn)] s3
                     in (Inr (), s4)))))"

text \<open>Lines 261 to 264.  A waiters object is truthy, so \<^verbatim>\<open>if self.waiters\<close> asks
  whether one was supplied.\<close>

definition monitor_wait :: "'r env \<Rightarrow> string \<Rightarrow> 'r sys \<Rightarrow> (exn + unit) \<times> 'r sys" where
  "monitor_wait env jid s =
     (case waiters (self s) of
        Some w \<Rightarrow> call (WaitersWaitForJob w jid) (waiters_wait_for_job env w jid) s
      | None \<Rightarrow> call (HookWaitForJob jid) (hook_wait_for_job env jid) s)"

text \<open>Lines 266 to 275.  \<^verbatim>\<open>if awslogs\<close> is false for \<^verbatim>\<open>None\<close> and for \<^verbatim>\<open>{}\<close>.\<close>

definition monitor_awslogs :: "'r env \<Rightarrow> string \<Rightarrow> 'r sys \<Rightarrow> (exn + unit) \<times> 'r sys" where
  "monitor_awslogs env jid s =
     (case call (HookGetJobAwslogsInfo jid) (hook_get_job_awslogs_info env jid) s of
        (Inl e, s1) \<Rightarrow> (Inl e, s1)
      | (Inr awslogs, s1) \<Rightarrow>
          (case awslogs of
             None \<Rightarrow> (Inr (), s1)
           | Some d \<Rightarrow>
               (if d = [] then (Inr (), s1)
                else
                  (let s2 = log_info ''AWS Batch job (%s) CloudWatch Events details found: %s''
                              [PyStr jid, PyDict d] s1;
                       s3 = persist CloudWatchEventsLink
                              ([(''region_name'', PyStr (conn_region_name env)),
                                (''aws_partition'', PyStr (conn_partition env))]
                               @ map (\<lambda>(k, v). (k, PyStr v)) d) s2
                   in (Inr (), s3)))))"

text \<open>Lines 277 and 278.\<close>

definition monitor_check :: "'r env \<Rightarrow> string \<Rightarrow> 'r sys \<Rightarrow> (exn + unit) \<times> 'r sys" where
  "monitor_check env jid s =
     (case call (HookCheckJobSuccess jid) (hook_check_job_success env jid) s of
        (Inl e, s1) \<Rightarrow> (Inl e, s1)
      | (Inr u, s1) \<Rightarrow> (Inr (), log_info ''AWS Batch job (%s) succeeded'' [PyStr jid] s1))"

text \<open>Lines 261 to 278: everything after the advisory lookup.\<close>

definition monitor_rest :: "'r env \<Rightarrow> string \<Rightarrow> 'r sys \<Rightarrow> (exn + unit) \<times> 'r sys" where
  "monitor_rest env jid s1 =
     (case monitor_wait env jid s1 of
        (Inl e, s2) \<Rightarrow> (Inl e, s2)
      | (Inr u, s2) \<Rightarrow>
          (case monitor_awslogs env jid s2 of
             (Inl e, s3) \<Rightarrow> (Inl e, s3)
           | (Inr u, s3) \<Rightarrow> monitor_check env jid s3))"

text \<open>Lines 266 to 278: what follows the wait.\<close>

definition monitor_after_wait :: "'r env \<Rightarrow> string \<Rightarrow> 'r sys \<Rightarrow> (exn + unit) \<times> 'r sys" where
  "monitor_after_wait env jid s2 =
     (case monitor_awslogs env jid s2 of
        (Inl e, s3) \<Rightarrow> (Inl e, s3)
      | (Inr u, s3) \<Rightarrow> monitor_check env jid s3)"

text \<open>Lines 221 to 278.  \<^verbatim>\<open>not self.job_id\<close> holds for \<^verbatim>\<open>None\<close> and for the empty
  string.\<close>

definition monitor_job :: "'r env \<Rightarrow> 'r sys \<Rightarrow> (exn + unit) \<times> 'r sys" where
  "monitor_job env s0 =
     (case job_id (self s0) of
        None \<Rightarrow> (Inl job_id_not_found, s0)
      | Some jid \<Rightarrow>
          (if jid = [] then (Inl job_id_not_found, s0)
           else
             (case monitor_arns env jid s0 of
                (Inl e, s1) \<Rightarrow> (Inl e, s1)
              | (Inr u, s1) \<Rightarrow> monitor_rest env jid s1)))"

section \<open>\<^verbatim>\<open>execute\<close> and \<^verbatim>\<open>on_kill\<close>\<close>

text \<open>Lines 163 to 174.\<close>

definition execute :: "'r env \<Rightarrow> 'r sys \<Rightarrow> (exn + string option) \<times> 'r sys" where
  "execute env s0 =
     (case submit_job env s0 of
        (Inl e, s1) \<Rightarrow> (Inl e, s1)
      | (Inr u, s1) \<Rightarrow>
          (if wait_for_completion (self s1) then
             (case monitor_job env s1 of
                (Inl e, s2) \<Rightarrow> (Inl e, s2)
              | (Inr u, s2) \<Rightarrow> (Inr (job_id (self s2)), s2))
           else (Inr (job_id (self s1)), s1)))"

definition terminate_kwargs :: "BatchOperator \<Rightarrow> kwargs" where
  "terminate_kwargs op =
     [(''jobId'', opt_val (job_id op)), (''reason'', PyStr ''Task killed by the user'')]"

text \<open>Lines 176 to 178.\<close>

definition on_kill :: "'r env \<Rightarrow> 'r sys \<Rightarrow> (exn + unit) \<times> 'r sys" where
  "on_kill env s0 =
     (case call (ClientTerminateJob (terminate_kwargs (self s0)))
             (client_terminate_job env (terminate_kwargs (self s0))) s0 of
        (Inl e, s1) \<Rightarrow> (Inl e, s1)
      | (Inr response, s1) \<Rightarrow>
          (Inr (), log_info ''AWS Batch job (%s) terminated: %s''
                     [opt_val (job_id (self s1)), PyDict response] s1))"

section \<open>\<^verbatim>\<open>operator_extra_links\<close>\<close>

text \<open>A positional argument of \<^verbatim>\<open>list.extend\<close>: a link object or a list of them.\<close>

datatype pyarg = LinkObj link | LinkList "link list"

text \<open>Python's \<^verbatim>\<open>list.extend\<close>: exactly one positional argument, and an iterable one.\<close>

definition list_extend :: "link list \<Rightarrow> pyarg list \<Rightarrow> exn + link list" where
  "list_extend xs args =
     (case args of
        [a] \<Rightarrow>
          (case a of
             LinkList ys \<Rightarrow> Inr (xs @ ys)
           | LinkObj l \<Rightarrow> Inl (TypeError ''object is not iterable''))
      | _ \<Rightarrow> Inl (TypeError ''extend() takes exactly one argument''))"

text \<open>Lines 114 to 123; the tuple returned is the list.\<close>

definition operator_extra_links :: "BatchOperator \<Rightarrow> exn + link list" where
  "operator_extra_links op =
     (let op_extra_links = [BatchJobDetailsLink]
      in case (if wait_for_completion op
               then list_extend op_extra_links
                      [LinkObj BatchJobDefinitionLink, LinkObj BatchJobQueueLink]
               else Inr op_extra_links) of
           Inl e \<Rightarrow> Inl e
         | Inr op_extra_links' \<Rightarrow>
             Inr (if array_properties op = [] then op_extra_links' @ [CloudWatchEventsLink]
                  else op_extra_links'))"

section \<open>Reading the trace\<close>

fun is_submit_call :: "event \<Rightarrow> bool" where
  "is_submit_call (ClientSubmitJob kw) = True"
| "is_submit_call e = False"

fun is_terminate_call :: "event \<Rightarrow> bool" where
  "is_terminate_call (ClientTerminateJob kw) = True"
| "is_terminate_call e = False"

text \<open>The two wait strategies' calls.\<close>

fun is_wait_call :: "event \<Rightarrow> bool" where
  "is_wait_call (HookWaitForJob jid) = True"
| "is_wait_call (WaitersWaitForJob w jid) = True"
| "is_wait_call e = False"

text \<open>The calls only \<^verbatim>\<open>monitor_job\<close> makes.\<close>

fun is_monitor_call :: "event \<Rightarrow> bool" where
  "is_monitor_call (HookGetJobDescription jid) = True"
| "is_monitor_call (HookWaitForJob jid) = True"
| "is_monitor_call (WaitersWaitForJob w jid) = True"
| "is_monitor_call (HookGetJobAwslogsInfo jid) = True"
| "is_monitor_call (HookCheckJobSuccess jid) = True"
| "is_monitor_call e = False"

definition submit_calls :: "event list \<Rightarrow> nat" where
  "submit_calls tr = length (filter is_submit_call tr)"

definition terminate_calls :: "event list \<Rightarrow> nat" where
  "terminate_calls tr = length (filter is_terminate_call tr)"

definition wait_events :: "event list \<Rightarrow> event list" where
  "wait_events tr = filter is_wait_call tr"

definition monitor_calls :: "event list \<Rightarrow> nat" where
  "monitor_calls tr = length (filter is_monitor_call tr)"

text \<open>What a method call leaves behind apart from the trace: its result, the operator's
  fields and the remote state.\<close>

definition outcome :: "(exn + 'a) \<times> 'r sys \<Rightarrow> (exn + 'a) \<times> BatchOperator \<times> 'r" where
  "outcome x = (fst x, self (snd x), remote (snd x))"

text \<open>The events of \<^verbatim>\<open>submit_job\<close> up to and including the client call, the extra
  one of the \<^verbatim>\<open>except\<close> branch, and the two after a response with a \<^verbatim>\<open>jobId\<close>.\<close>

definition submit_call_events :: "BatchOperator \<Rightarrow> event list" where
  "submit_call_events op =
     [Log INFO ''Running AWS Batch job - job definition: %s - on queue %s''
        [PyStr (job_definition op), PyStr (job_queue op)],
      Log INFO ''AWS Batch job - container overrides: %s'' [PyDict (overrides op)],
      ClientSubmitJob (submit_kwargs op)]"

definition submit_error_events :: "BatchOperator \<Rightarrow> event list" where
  "submit_error_events op =
     [Log ERROR ''AWS Batch job failed submission - job definition: %s - on queue %s''
        [PyStr (job_definition op), PyStr (job_queue op)]]"

definition submit_started_events :: "'r env \<Rightarrow> string \<Rightarrow> pydict \<Rightarrow> event list" where
  "submit_started_events env jid response =
     [Log INFO ''AWS Batch job (%s) started: %s'' [PyStr jid, PyDict response],
      LinkPersist BatchJobDetailsLink
        [(''region_name'', PyStr (conn_region_name env)),
         (''aws_partition'', PyStr (conn_partition env)),
         (''job_id'', PyStr jid)]]"

section \<open>A scripted remote service\<close>

text \<open>For concrete runs: the remote state counts the calls answered so far, and each
  operation answers from a script indexed by that count.\<close>

definition scripted_env ::
  "(nat \<Rightarrow> exn + pydict) \<Rightarrow> (nat \<Rightarrow> exn + pydict) \<Rightarrow> (nat \<Rightarrow> exn + pydict) \<Rightarrow>
   (nat \<Rightarrow> exn + unit) \<Rightarrow> (nat \<Rightarrow> exn + pydict option) \<Rightarrow> nat env" where
  "scripted_env submit_script terminate_script describe_script wait_script awslogs_script =
     \<lparr> client_submit_job = (\<lambda>kw n. (submit_script n, Suc n)),
       client_terminate_job = (\<lambda>kw n. (terminate_script n, Suc n)),
       hook_get_job_description = (\<lambda>jid n. (describe_script n, Suc n)),
       hook_wait_for_job = (\<lambda>jid n. (wait_script n, Suc n)),
       waiters_wait_for_job = (\<lambda>w jid n. (wait_script n, Suc n)),
       hook_get_job_awslogs_info = (\<lambda>jid n. (awslogs_script n, Suc n)),
       conn_region_name = ''eu-west-1'',
       conn_partition = ''aws'' \<rparr>"

definition example_operator :: "string option \<Rightarrow> waiters option \<Rightarrow> bool \<Rightarrow> BatchOperator" where
  "example_operator a_job_id a_waiters a_wait_for_completion =
     BatchOperator_init ''example_job_name'' ''hello-world'' ''queue'' [(''vcpus'', ''1'')]
       None None a_job_id a_waiters None None None None None a_wait_for_completion"

definition fresh :: "BatchOperator \<Rightarrow> nat sys" where
  "fresh op = \<lparr> self = op, remote = 0, trace = [] \<rparr>"

text \<open>A service that throttles the first submission and is unavailable at the second.\<close>

definition refusing_env :: "nat env" where
  "refusing_env =
     scripted_env
       (\<lambda>n. Inl (ClientError (if n = 0 then ''TooManyRequestsException''
                               else ''ServiceUnavailable'')))
       (\<lambda>n. Inl (ClientError ''ServiceUnavailable''))
       (\<lambda>n. Inl (ClientError ''ServiceUnavailable''))
       (\<lambda>n. Inl (WaiterError ''Max attempts exceeded''))
       (\<lambda>n. Inl (ClientError ''ServiceUnavailable''))"

text \<open>A service that runs the job; \<open>final\<close> is the description it gives once the wait
  is over, \<open>first\<close> the one it gives at the start.\<close>

definition running_env :: "pydict \<Rightarrow> pydict \<Rightarrow> pydict \<Rightarrow> nat env" where
  "running_env response first final =
     scripted_env
       (\<lambda>n. Inr response)
       (\<lambda>n. Inr [])
       (\<lambda>n. Inr (if n \<le> 1 then first else final))
       (\<lambda>n. Inr ())
       (\<lambda>n. Inr None)"

definition full_description :: pydict where
  "full_description =
     [(''jobId'', ''8ba9d676''),
      (''jobDefinition'', ''arn:aws:batch:eu-west-1:123456789012:job-definition/hello-world:1''),
      (''jobQueue'', ''arn:aws:batch:eu-west-1:123456789012:job-queue/queue''),
      (''status'', ''RUNNABLE'')]"

definition failed_description :: pydict where
  "failed_description =
     [(''jobId'', ''8ba9d676''),
      (''status'', ''FAILED''),
      (''statusReason'', ''Essential container in task exited'')]"

definition succeeded_description :: pydict where
  "succeeded_description = [(''jobId'', ''8ba9d676''), (''status'', ''SUCCEEDED'')]"


text \<open>A service where the two wait strategies differ: the waiters object's wait gives up,
  the hook's poller returns.\<close>

definition waiters_failing_env :: "nat env" where
  "waiters_failing_env =
     (running_env [(''jobId'', ''8ba9d676'')] full_description succeeded_description)
       \<lparr> waiters_wait_for_job :=
           (\<lambda>w jid n. (Inl (WaiterError ''Max attempts exceeded''), Suc n)) \<rparr>"

text \<open>A client that validates its parameters as botocore does: \<^verbatim>\<open>terminate_job\<close> with a
  \<^verbatim>\<open>jobId\<close> that is not a string is refused before any request, so the remote state
  stays as it is.\<close>

definition validating_env :: "nat env" where
  "validating_env =
     (running_env [(''jobId'', ''8ba9d676'')] full_description succeeded_description)
       \<lparr> client_terminate_job :=
           (\<lambda>kw n. case map_of kw ''jobId'' of
                      Some (PyStr j) \<Rightarrow> (Inr [], Suc n)
                    | _ \<Rightarrow> (Inl (ClientError ''ParamValidationError''), n)) \<rparr>"

section \<open>Basic facts about the trace and the primitives\<close>

lemma submit_calls_append: "submit_calls (xs @ ys) = submit_calls xs + submit_calls ys"
  by (simp add: submit_calls_def)

lemma monitor_calls_append: "monitor_calls (xs @ ys) = monitor_calls xs + monitor_calls ys"
  by (simp add: monitor_calls_def)

lemma wait_events_append: "wait_events (xs @ ys) = wait_events xs @ wait_events ys"
  by (simp add: wait_events_def)

lemma submit_calls_call_events: "submit_calls (submit_call_events op) = 1"
  by (simp add: submit_calls_def submit_call_events_def)

lemma submit_calls_error_events: "submit_calls (submit_error_events op) = 0"
  by (simp add: submit_calls_def submit_error_events_def)

lemma monitor_calls_error_events: "monitor_calls (submit_error_events op) = 0"
  by (simp add: monitor_calls_def submit_error_events_def)

lemma monitor_calls_call_events: "monitor_calls (submit_call_events op) = 0"
  by (simp add: monitor_calls_def submit_call_events_def)

lemma monitor_calls_started_events: "monitor_calls (submit_started_events env jid response) = 0"
  by (simp add: monitor_calls_def submit_started_events_def)

section \<open>\<^verbatim>\<open>submit_job\<close>: the three ways it ends\<close>

lemma submit_job_raises:
  assumes "client_submit_job env (submit_kwargs (self s)) (remote s) = (Inl e, r')"
  shows "submit_job env s =
           (Inl (AirflowException (Exc e)),
            s\<lparr>remote := r',
              trace := trace s @ submit_call_events (self s) @ submit_error_events (self s)\<rparr>)"
  using assms
  by (simp add: submit_job_def call_def log_info_def log_error_def emit_def
                submit_call_events_def submit_error_events_def)

lemma submit_job_key_error:
  assumes "client_submit_job env (submit_kwargs (self s)) (remote s) = (Inr response, r')"
      and "map_of response ''jobId'' = None"
  shows "submit_job env s =
           (Inl (KeyError ''jobId''),
            s\<lparr>remote := r', trace := trace s @ submit_call_events (self s)\<rparr>)"
  using assms
  by (simp add: submit_job_def call_def log_info_def emit_def submit_call_events_def)

lemma submit_job_returns:
  assumes "client_submit_job env (submit_kwargs (self s)) (remote s) = (Inr response, r')"
      and "map_of response ''jobId'' = Some jid"
  shows "submit_job env s =
           (Inr (),
            s\<lparr>self := (self s)\<lparr>job_id := Some jid\<rparr>,
              remote := r',
              trace := trace s @ submit_call_events (self s)
                         @ submit_started_events env jid response\<rparr>)"
  using assms
  by (simp add: submit_job_def call_def log_info_def persist_def emit_def opt_val_def
                submit_call_events_def submit_started_events_def)

text \<open>The three lemmas cover every run of \<^verbatim>\<open>submit_job\<close>.\<close>

lemma submit_job_cases:
  obtains (raises) e r' where
      "client_submit_job env (submit_kwargs (self s)) (remote s) = (Inl e, r')"
    | (key_error) response r' where
      "client_submit_job env (submit_kwargs (self s)) (remote s) = (Inr response, r')"
      "map_of response ''jobId'' = None"
    | (returns) response r' jid where
      "client_submit_job env (submit_kwargs (self s)) (remote s) = (Inr response, r')"
      "map_of response ''jobId'' = Some jid"
proof (cases "client_submit_job env (submit_kwargs (self s)) (remote s)")
  case (Pair res r')
  show ?thesis
  proof (cases res)
    case (Inl e)
    with Pair raises show ?thesis by simp
  next
    case (Inr response)
    with Pair key_error returns show ?thesis
      by (cases "map_of response ''jobId''") auto
  qed
qed

text \<open>C3: when the remote submit call raises, \<^verbatim>\<open>submit_job\<close> makes that one client call
  and no other, raises one \<^verbatim>\<open>AirflowException\<close> wrapping the client's exception, and does
  not retry; a second invocation whose client call raises again does the same, so the two
  invocations make two client calls in all and raise one wrapped error each.\<close>

theorem submit_job_failure_no_retry:
  assumes "client_submit_job env (submit_kwargs (self s)) (remote s) = (Inl e1, r1)"
  shows "(case submit_job env s of
            (res1, s1) \<Rightarrow>
              res1 = Inl (AirflowException (Exc e1)) \<and>
              remote s1 = r1 \<and>
              submit_calls (trace s1) = submit_calls (trace s) + 1 \<and>
              (\<forall>e2 r2. client_submit_job env (submit_kwargs (self s1)) r1 = (Inl e2, r2) \<longrightarrow>
                 (case submit_job env s1 of
                    (res2, s2) \<Rightarrow>
                      res2 = Inl (AirflowException (Exc e2)) \<and>
                      remote s2 = r2 \<and>
                      submit_calls (trace s2) = submit_calls (trace s) + 2)))"
proof -
  let ?s1 = "s\<lparr>remote := r1,
                trace := trace s @ submit_call_events (self s) @ submit_error_events (self s)\<rparr>"
  have first: "submit_job env s = (Inl (AirflowException (Exc e1)), ?s1)"
    by (rule submit_job_raises [OF assms])
  have second: "submit_job env ?s1 =
      (Inl (AirflowException (Exc e2)),
       ?s1\<lparr>remote := r2,
            trace := trace ?s1 @ submit_call_events (self ?s1) @ submit_error_events (self ?s1)\<rparr>)"
    if "client_submit_job env (submit_kwargs (self ?s1)) r1 = (Inl e2, r2)" for e2 r2
    by (rule submit_job_raises) (use that in simp)
  show ?thesis
    by (simp add: first second submit_calls_append submit_calls_call_events
                  submit_calls_error_events)
qed

theorem submit_job_failure_no_retry_witness:
  "fst (submit_job refusing_env (fresh (example_operator None None True)))
     = Inl (AirflowException (Exc (ClientError ''TooManyRequestsException''))) \<and>
   submit_calls (trace (snd (submit_job refusing_env (fresh (example_operator None None True)))))
     = 1 \<and>
   fst (submit_job refusing_env
          (snd (submit_job refusing_env (fresh (example_operator None None True)))))
     = Inl (AirflowException (Exc (ClientError ''ServiceUnavailable''))) \<and>
   submit_calls (trace (snd (submit_job refusing_env
          (snd (submit_job refusing_env (fresh (example_operator None None True)))))))
     = 2"
proof -
  let ?s = "fresh (example_operator None None True)"
  have h1: "client_submit_job refusing_env (submit_kwargs (self ?s)) (remote ?s)
              = (Inl (ClientError ''TooManyRequestsException''), 1)"
    by (simp add: refusing_env_def scripted_env_def fresh_def)
  have h2: "client_submit_job refusing_env (submit_kwargs (self s1)) 1
              = (Inl (ClientError ''ServiceUnavailable''), 2)" for s1 :: "nat sys"
    by (simp add: refusing_env_def scripted_env_def)
  have tr: "submit_calls (trace ?s) = 0"
    by (simp add: fresh_def submit_calls_def)
  show ?thesis
    using submit_job_failure_no_retry [OF h1] h2 tr
    by (auto split: prod.splits)
qed

lemma submit_job_failure_self:
  assumes "fst (submit_job env s) = Inl e"
  shows "self (snd (submit_job env s)) = self s"
proof (cases rule: submit_job_cases [of env s])
  case (raises e' r')
  then show ?thesis by (simp add: submit_job_raises)
next
  case (key_error response r')
  then show ?thesis by (simp add: submit_job_key_error)
next
  case (returns response r' jid)
  with assms show ?thesis by (simp add: submit_job_returns)
qed

lemma submit_job_self:
  "self (snd (submit_job env s)) = (self s)\<lparr>job_id := job_id (self (snd (submit_job env s)))\<rparr>"
proof (cases rule: submit_job_cases [of env s])
  case (raises e' r')
  then show ?thesis by (simp add: submit_job_raises)
next
  case (key_error response r')
  then show ?thesis by (simp add: submit_job_key_error)
next
  case (returns response r' jid)
  then show ?thesis by (simp add: submit_job_returns)
qed

text \<open>C8: \<^verbatim>\<open>submit_job\<close> leaves \<^verbatim>\<open>job_name\<close>, \<^verbatim>\<open>job_definition\<close>, \<^verbatim>\<open>job_queue\<close>,
  \<^verbatim>\<open>overrides\<close>, \<^verbatim>\<open>array_properties\<close>, \<^verbatim>\<open>parameters\<close>, \<^verbatim>\<open>tags\<close>, \<^verbatim>\<open>waiters\<close>,
  \<^verbatim>\<open>wait_for_completion\<close> and the hook as they were, whether it returns or raises; when
  the client call returns a response with a \<^verbatim>\<open>jobId\<close>, it returns and \<^verbatim>\<open>job_id\<close> holds
  that identifier; when it raises, \<^verbatim>\<open>job_id\<close> is as it was too.\<close>

theorem submit_job_only_sets_job_id:
  "(case submit_job env s of
      (res, s') \<Rightarrow>
        job_name (self s') = job_name (self s) \<and>
        job_definition (self s') = job_definition (self s) \<and>
        job_queue (self s') = job_queue (self s) \<and>
        overrides (self s') = overrides (self s) \<and>
        array_properties (self s') = array_properties (self s) \<and>
        parameters (self s') = parameters (self s) \<and>
        tags (self s') = tags (self s) \<and>
        waiters (self s') = waiters (self s) \<and>
        wait_for_completion (self s') = wait_for_completion (self s) \<and>
        hook (self s') = hook (self s) \<and>
        (\<forall>response r' jid.
           client_submit_job env (submit_kwargs (self s)) (remote s) = (Inr response, r') \<and>
           map_of response ''jobId'' = Some jid \<longrightarrow>
           res = Inr () \<and> job_id (self s') = Some jid) \<and>
        (\<forall>e. res = Inl e \<longrightarrow> job_id (self s') = job_id (self s)))"
proof (cases rule: submit_job_cases [of env s])
  case (raises e' r')
  then show ?thesis by (simp add: submit_job_raises)
next
  case (key_error response r')
  then show ?thesis by (simp add: submit_job_key_error)
next
  case (returns response r' jid)
  then show ?thesis by (simp add: submit_job_returns)
qed

theorem submit_job_only_sets_job_id_witness:
  "fst (submit_job (running_env [(''jobId'', ''8ba9d676'')] full_description succeeded_description)
          (fresh (example_operator None None True))) = Inr () \<and>
   self (snd (submit_job
                (running_env [(''jobId'', ''8ba9d676'')] full_description succeeded_description)
                (fresh (example_operator None None True))))
     = example_operator (Some ''8ba9d676'') None True"
proof -
  let ?env = "running_env [(''jobId'', ''8ba9d676'')] full_description succeeded_description"
  let ?s = "fresh (example_operator None None True)"
  have h: "client_submit_job ?env (submit_kwargs (self ?s)) (remote ?s)
             = (Inr [(''jobId'', ''8ba9d676'')], 1) \<and>
           map_of [(''jobId'', ''8ba9d676'')] ''jobId'' = Some ''8ba9d676''"
    by (simp add: running_env_def scripted_env_def fresh_def)
  have "fst (submit_job ?env ?s) = Inr () \<and>
        job_id (self (snd (submit_job ?env ?s))) = Some ''8ba9d676''"
    using submit_job_only_sets_job_id [where env = ?env and s = ?s] h
    by (auto split: prod.splits)
  moreover have "self (snd (submit_job ?env ?s))
      = (self ?s)\<lparr>job_id := job_id (self (snd (submit_job ?env ?s)))\<rparr>"
    using submit_job_only_sets_job_id [where env = ?env and s = ?s]
    by (auto split: prod.splits)
  ultimately show ?thesis
    by (simp add: fresh_def example_operator_def BatchOperator_init_def)
qed

text \<open>C10: when the client call returns a response without the key \<^verbatim>\<open>jobId\<close>,
  \<^verbatim>\<open>submit_job\<close> raises \<^verbatim>\<open>KeyError\<close> itself, not an \<^verbatim>\<open>AirflowException\<close> (the lookup
  stands after the \<^verbatim>\<open>try\<close> statement), after its one client call, and \<^verbatim>\<open>job_id\<close> is what
  it was: unset if it was unset.\<close>

theorem submit_job_response_without_job_id:
  assumes "client_submit_job env (submit_kwargs (self s)) (remote s) = (Inr response, r')"
      and "map_of response ''jobId'' = None"
  shows "fst (submit_job env s) = Inl (KeyError ''jobId'') \<and>
         (\<forall>a. fst (submit_job env s) \<noteq> Inl (AirflowException a)) \<and>
         job_id (self (snd (submit_job env s))) = job_id (self s) \<and>
         submit_calls (trace (snd (submit_job env s))) = submit_calls (trace s) + 1"
  by (simp add: submit_job_key_error [OF assms] submit_calls_append submit_calls_call_events)

theorem submit_job_response_without_job_id_witness:
  "fst (submit_job (running_env [(''jobName'', ''example_job_name'')] full_description
                      succeeded_description)
          (fresh (example_operator None None True))) = Inl (KeyError ''jobId'') \<and>
   job_id (self (snd (submit_job (running_env [(''jobName'', ''example_job_name'')]
                                    full_description succeeded_description)
                        (fresh (example_operator None None True))))) = None"
proof -
  let ?env = "running_env [(''jobName'', ''example_job_name'')] full_description
                succeeded_description"
  let ?s = "fresh (example_operator None None True)"
  have h1: "client_submit_job ?env (submit_kwargs (self ?s)) (remote ?s)
             = (Inr [(''jobName'', ''example_job_name'')], 1)"
    by (simp add: running_env_def scripted_env_def fresh_def)
  have h2: "map_of [(''jobName'', ''example_job_name'')] ''jobId'' = None"
    by simp
  have unset: "job_id (self ?s) = None"
    by (simp add: fresh_def example_operator_def BatchOperator_init_def)
  show ?thesis
    using submit_job_response_without_job_id [OF h1 h2] unset by simp
qed

section \<open>\<^verbatim>\<open>operator_extra_links\<close>\<close>

lemma operator_extra_links_no_wait:
  assumes "\<not> wait_for_completion op"
  shows "operator_extra_links op =
           Inr (if array_properties op = [] then [BatchJobDetailsLink, CloudWatchEventsLink]
                else [BatchJobDetailsLink])"
  using assms by (simp add: operator_extra_links_def)

text \<open>C9: with \<^verbatim>\<open>wait_for_completion\<close> true, reading \<^verbatim>\<open>operator_extra_links\<close> raises
  \<^verbatim>\<open>TypeError\<close>, because \<^verbatim>\<open>list.extend\<close> is called with two arguments; no tuple of links
  is returned.\<close>

theorem operator_extra_links_type_error:
  assumes "wait_for_completion op"
  shows "operator_extra_links op = Inl (TypeError ''extend() takes exactly one argument'') \<and>
         (\<forall>ls. operator_extra_links op \<noteq> Inr ls)"
  using assms by (simp add: operator_extra_links_def list_extend_def)

theorem operator_extra_links_type_error_witness:
  "operator_extra_links (example_operator None None True)
     = Inl (TypeError ''extend() takes exactly one argument'')"
proof -
  have h: "wait_for_completion (example_operator None None True)"
    by (simp add: example_operator_def BatchOperator_init_def)
  show ?thesis
    using operator_extra_links_type_error [OF h] by simp
qed

section \<open>\<^verbatim>\<open>monitor_job\<close>: the precondition\<close>

lemma monitor_job_empty_job_id:
  assumes "job_id (self s) = Some []"
  shows "monitor_job env s = (Inl job_id_not_found, s)"
  using assms by (simp add: monitor_job_def)

text \<open>C2: with \<^verbatim>\<open>job_id\<close> unset, \<^verbatim>\<open>monitor_job\<close> raises
  \<^verbatim>\<open>AirflowException('AWS Batch job - job_id was not found')\<close> and leaves the whole state
  as it was: no call went out and nothing was logged.  The same happens when
  \<^verbatim>\<open>monitor_job\<close> follows a \<^verbatim>\<open>submit_job\<close> that raised.\<close>

theorem monitor_job_without_job_id:
  assumes "job_id (self s) = None"
  shows "monitor_job env s
           = (Inl (AirflowException (Msg ''AWS Batch job - job_id was not found'')), s) \<and>
         (\<forall>e. fst (submit_job env s) = Inl e \<longrightarrow>
            monitor_job env (snd (submit_job env s))
              = (Inl (AirflowException (Msg ''AWS Batch job - job_id was not found'')),
                 snd (submit_job env s)))"
proof -
  have unset: "monitor_job env t
      = (Inl (AirflowException (Msg ''AWS Batch job - job_id was not found'')), t)"
    if "job_id (self t) = None" for t :: "'a sys"
    using that by (simp add: monitor_job_def job_id_not_found_def)
  have "job_id (self (snd (submit_job env s))) = None" if "fst (submit_job env s) = Inl e" for e
    using submit_job_failure_self [OF that] assms by simp
  with unset [OF assms] unset show ?thesis
    by blast
qed

theorem monitor_job_without_job_id_witness:
  "monitor_job refusing_env (fresh (example_operator None None True))
     = (Inl (AirflowException (Msg ''AWS Batch job - job_id was not found'')),
        fresh (example_operator None None True)) \<and>
   fst (monitor_job refusing_env
          (snd (submit_job refusing_env (fresh (example_operator None None True)))))
     = Inl (AirflowException (Msg ''AWS Batch job - job_id was not found'')) \<and>
   monitor_calls (trace (snd (monitor_job refusing_env
          (snd (submit_job refusing_env (fresh (example_operator None None True))))))) = 0"
proof -
  let ?s = "fresh (example_operator None None True)"
  have h: "job_id (self ?s) = None"
    by (simp add: fresh_def example_operator_def BatchOperator_init_def)
  have call: "client_submit_job refusing_env (submit_kwargs (self ?s)) (remote ?s)
                = (Inl (ClientError ''TooManyRequestsException''), 1)"
    by (simp add: refusing_env_def scripted_env_def fresh_def)
  have failed: "fst (submit_job refusing_env ?s)
                  = Inl (AirflowException (Exc (ClientError ''TooManyRequestsException'')))"
    by (simp add: submit_job_raises [OF call])
  have quiet: "monitor_calls (trace (snd (submit_job refusing_env ?s))) = 0"
    by (simp add: submit_job_raises [OF call] monitor_calls_append monitor_calls_call_events
                  monitor_calls_error_events)
       (simp add: fresh_def monitor_calls_def)
  show ?thesis
    using monitor_job_without_job_id [OF h, where env = refusing_env] failed quiet by simp
qed

section \<open>\<^verbatim>\<open>monitor_job\<close>: the phases\<close>

lemma monitor_arns_self: "self (snd (monitor_arns env jid s)) = self s"
  by (simp add: monitor_arns_def call_def log_warning_def log_info_def persist_def emit_def
           split: prod.splits sum.splits option.splits)

lemma monitor_wait_self: "self (snd (monitor_wait env jid s)) = self s"
  by (simp add: monitor_wait_def call_def split: prod.splits option.splits)

lemma monitor_awslogs_self: "self (snd (monitor_awslogs env jid s)) = self s"
  by (simp add: monitor_awslogs_def call_def log_info_def persist_def emit_def
           split: prod.splits sum.splits option.splits)

lemma monitor_check_self: "self (snd (monitor_check env jid s)) = self s"
  by (simp add: monitor_check_def call_def log_info_def emit_def
           split: prod.splits sum.splits)

lemma monitor_rest_self: "self (snd (monitor_rest env jid s)) = self s"
proof (cases "monitor_wait env jid s")
  case wait: (Pair r2 s2)
  have s2: "self s2 = self s"
    using monitor_wait_self [of env jid s] wait by simp
  show ?thesis
  proof (cases r2)
    case (Inl e)
    with wait s2 show ?thesis by (simp add: monitor_rest_def)
  next
    case (Inr u)
    show ?thesis
    proof (cases "monitor_awslogs env jid s2")
      case logs: (Pair r3 s3)
      have s3: "self s3 = self s"
        using monitor_awslogs_self [of env jid s2] logs s2 by simp
      show ?thesis
      proof (cases r3)
        case (Inl e)
        with wait Inr logs s3 show ?thesis by (simp add: monitor_rest_def)
      next
        case r3: (Inr u')
        with wait Inr logs s3 monitor_check_self [of env jid s3] show ?thesis
          by (simp add: monitor_rest_def)
      qed
    qed
  qed
qed

lemma monitor_job_self: "self (snd (monitor_job env s)) = self s"
proof (cases "job_id (self s)")
  case None
  then show ?thesis by (simp add: monitor_job_def)
next
  case (Some jid)
  show ?thesis
  proof (cases "jid = []")
    case True
    with Some show ?thesis by (simp add: monitor_job_def)
  next
    case False
    show ?thesis
    proof (cases "monitor_arns env jid s")
      case (Pair r1 s1)
      have s1: "self s1 = self s"
        using monitor_arns_self [of env jid s] Pair by simp
      show ?thesis
      proof (cases r1)
        case (Inl e)
        with Some False Pair s1 show ?thesis by (simp add: monitor_job_def)
      next
        case (Inr u)
        with Some False Pair s1 monitor_rest_self [of env jid s1] show ?thesis
          by (simp add: monitor_job_def)
      qed
    qed
  qed
qed

text \<open>Which wait calls each phase adds to the trace.\<close>

lemma monitor_arns_wait_events:
  "wait_events (trace (snd (monitor_arns env jid s))) = wait_events (trace s)"
  by (simp add: monitor_arns_def call_def log_warning_def log_info_def persist_def emit_def
                wait_events_def
           split: prod.splits sum.splits option.splits)

lemma monitor_wait_wait_events:
  "wait_events (trace (snd (monitor_wait env jid s))) =
     wait_events (trace s) @
       [case waiters (self s) of Some w \<Rightarrow> WaitersWaitForJob w jid | None \<Rightarrow> HookWaitForJob jid]"
  by (simp add: monitor_wait_def call_def wait_events_def split: prod.splits option.splits)

lemma monitor_awslogs_wait_events:
  "wait_events (trace (snd (monitor_awslogs env jid s))) = wait_events (trace s)"
  by (simp add: monitor_awslogs_def call_def log_info_def persist_def emit_def wait_events_def
           split: prod.splits sum.splits option.splits)

lemma monitor_check_wait_events:
  "wait_events (trace (snd (monitor_check env jid s))) = wait_events (trace s)"
  by (simp add: monitor_check_def call_def log_info_def emit_def wait_events_def
           split: prod.splits sum.splits)

lemma monitor_rest_wait_events:
  "wait_events (trace (snd (monitor_rest env jid s))) =
     wait_events (trace s) @
       [case waiters (self s) of Some w \<Rightarrow> WaitersWaitForJob w jid | None \<Rightarrow> HookWaitForJob jid]"
proof (cases "monitor_wait env jid s")
  case wait: (Pair r2 s2)
  have s2: "wait_events (trace s2) =
     wait_events (trace s) @
       [case waiters (self s) of Some w \<Rightarrow> WaitersWaitForJob w jid | None \<Rightarrow> HookWaitForJob jid]"
    using monitor_wait_wait_events [of env jid s] wait by simp
  show ?thesis
  proof (cases r2)
    case (Inl e)
    with wait s2 show ?thesis by (simp add: monitor_rest_def)
  next
    case (Inr u)
    show ?thesis
    proof (cases "monitor_awslogs env jid s2")
      case logs: (Pair r3 s3)
      have s3: "wait_events (trace s3) = wait_events (trace s2)"
        using monitor_awslogs_wait_events [of env jid s2] logs by simp
      show ?thesis
      proof (cases r3)
        case (Inl e)
        with wait Inr logs s2 s3 show ?thesis by (simp add: monitor_rest_def)
      next
        case r3: (Inr u')
        with wait Inr logs s2 s3 monitor_check_wait_events [of env jid s3] show ?thesis
          by (simp add: monitor_rest_def)
      qed
    qed
  qed
qed

lemma monitor_rest_wait_applied:
  "monitor_rest env jid s1 =
     (case waiters (self s1) of
        Some w \<Rightarrow>
          (case waiters_wait_for_job env w jid (remote s1) of
             (Inl e, r2) \<Rightarrow>
               (Inl e, s1\<lparr>remote := r2, trace := trace s1 @ [WaitersWaitForJob w jid]\<rparr>)
           | (Inr u, r2) \<Rightarrow>
               monitor_after_wait env jid
                 (s1\<lparr>remote := r2, trace := trace s1 @ [WaitersWaitForJob w jid]\<rparr>))
      | None \<Rightarrow>
          (case hook_wait_for_job env jid (remote s1) of
             (Inl e, r2) \<Rightarrow>
               (Inl e, s1\<lparr>remote := r2, trace := trace s1 @ [HookWaitForJob jid]\<rparr>)
           | (Inr u, r2) \<Rightarrow>
               monitor_after_wait env jid
                 (s1\<lparr>remote := r2, trace := trace s1 @ [HookWaitForJob jid]\<rparr>)))"
  by (simp add: monitor_rest_def monitor_wait_def monitor_after_wait_def call_def
           split: option.splits prod.splits sum.splits)

text \<open>C7: the wait one invocation of \<^verbatim>\<open>monitor_job\<close> performs.  An invocation that gets
  past the precondition and the advisory lookup applies exactly one wait operation to the
  remote service: the waiters object's \<^verbatim>\<open>wait_for_job\<close> on \<^verbatim>\<open>self.job_id\<close> when a
  waiters object was supplied, and then the hook's poller is not run; the hook's
  \<^verbatim>\<open>wait_for_job\<close> otherwise.  An exception of that operation ends \<^verbatim>\<open>monitor_job\<close>; when
  it returns, the log lookup and the final check follow from the remote state it left.
  The trace of any invocation gains that one wait call, or none when the invocation raises
  before line 261, and never one of each strategy.\<close>

theorem monitor_job_one_wait_strategy:
  "wait_events (trace (snd (monitor_job env s))) =
     wait_events (trace s) @
       (case job_id (self s) of
          None \<Rightarrow> []
        | Some jid \<Rightarrow>
            if jid = [] then []
            else (case fst (monitor_arns env jid s) of
                    Inl e \<Rightarrow> []
                  | Inr u \<Rightarrow>
                      [case waiters (self s) of
                         Some w \<Rightarrow> WaitersWaitForJob w jid
                       | None \<Rightarrow> HookWaitForJob jid])) \<and>
   (\<forall>jid s1.
      job_id (self s) = Some jid \<and> jid \<noteq> [] \<and> monitor_arns env jid s = (Inr (), s1) \<longrightarrow>
      monitor_job env s =
        (case waiters (self s) of
           Some w \<Rightarrow>
             (case waiters_wait_for_job env w jid (remote s1) of
                (Inl e, r2) \<Rightarrow>
                  (Inl e, s1\<lparr>remote := r2, trace := trace s1 @ [WaitersWaitForJob w jid]\<rparr>)
              | (Inr u, r2) \<Rightarrow>
                  monitor_after_wait env jid
                    (s1\<lparr>remote := r2, trace := trace s1 @ [WaitersWaitForJob w jid]\<rparr>))
         | None \<Rightarrow>
             (case hook_wait_for_job env jid (remote s1) of
                (Inl e, r2) \<Rightarrow>
                  (Inl e, s1\<lparr>remote := r2, trace := trace s1 @ [HookWaitForJob jid]\<rparr>)
              | (Inr u, r2) \<Rightarrow>
                  monitor_after_wait env jid
                    (s1\<lparr>remote := r2, trace := trace s1 @ [HookWaitForJob jid]\<rparr>))))"
proof -
  have events: "wait_events (trace (snd (monitor_job env s))) =
     wait_events (trace s) @
       (case job_id (self s) of
          None \<Rightarrow> []
        | Some jid \<Rightarrow>
            if jid = [] then []
            else (case fst (monitor_arns env jid s) of
                    Inl e \<Rightarrow> []
                  | Inr u \<Rightarrow>
                      [case waiters (self s) of
                         Some w \<Rightarrow> WaitersWaitForJob w jid
                       | None \<Rightarrow> HookWaitForJob jid]))"
  proof (cases "job_id (self s)")
    case None
    then show ?thesis by (simp add: monitor_job_def)
  next
    case (Some jid)
    show ?thesis
    proof (cases "jid = []")
      case True
      with Some show ?thesis by (simp add: monitor_job_def)
    next
      case False
      show ?thesis
      proof (cases "monitor_arns env jid s")
        case (Pair r1 s1)
        have tr: "wait_events (trace s1) = wait_events (trace s)"
          using monitor_arns_wait_events [of env jid s] Pair by simp
        have op: "self s1 = self s"
          using monitor_arns_self [of env jid s] Pair by simp
        show ?thesis
        proof (cases r1)
          case (Inl e)
          with Some False Pair tr show ?thesis by (simp add: monitor_job_def)
        next
          case (Inr u)
          with Some False Pair tr op monitor_rest_wait_events [of env jid s1] show ?thesis
            by (simp add: monitor_job_def)
        qed
      qed
    qed
  qed
  have applied: "monitor_job env s =
        (case waiters (self s) of
           Some w \<Rightarrow>
             (case waiters_wait_for_job env w jid (remote s1) of
                (Inl e, r2) \<Rightarrow>
                  (Inl e, s1\<lparr>remote := r2, trace := trace s1 @ [WaitersWaitForJob w jid]\<rparr>)
              | (Inr u, r2) \<Rightarrow>
                  monitor_after_wait env jid
                    (s1\<lparr>remote := r2, trace := trace s1 @ [WaitersWaitForJob w jid]\<rparr>))
         | None \<Rightarrow>
             (case hook_wait_for_job env jid (remote s1) of
                (Inl e, r2) \<Rightarrow>
                  (Inl e, s1\<lparr>remote := r2, trace := trace s1 @ [HookWaitForJob jid]\<rparr>)
              | (Inr u, r2) \<Rightarrow>
                  monitor_after_wait env jid
                    (s1\<lparr>remote := r2, trace := trace s1 @ [HookWaitForJob jid]\<rparr>)))"
    if "job_id (self s) = Some jid" and "jid \<noteq> []"
      and "monitor_arns env jid s = (Inr (), s1)" for jid s1
  proof -
    have op: "self s1 = self s"
      using monitor_arns_self [of env jid s] that(3) by simp
    have "monitor_job env s = monitor_rest env jid s1"
      using that by (simp add: monitor_job_def)
    then show ?thesis
      by (simp add: monitor_rest_wait_applied op)
  qed
  show ?thesis
    using events applied by blast
qed

theorem monitor_job_one_wait_strategy_witness:
  "monitor_job waiters_failing_env
     (fresh (example_operator (Some ''8ba9d676'') (Some (BatchWaiters 7)) True))
   = (Inl (WaiterError ''Max attempts exceeded''),
      \<lparr> self = example_operator (Some ''8ba9d676'') (Some (BatchWaiters 7)) True,
        remote = 2,
        trace = [HookGetJobDescription ''8ba9d676'',
                 Log INFO ''AWS Batch job (%s) Job Definition ARN: %r, Job Queue ARN: %r''
                   [PyStr ''8ba9d676'',
                    PyStr ''arn:aws:batch:eu-west-1:123456789012:job-definition/hello-world:1'',
                    PyStr ''arn:aws:batch:eu-west-1:123456789012:job-queue/queue''],
                 LinkPersist BatchJobDefinitionLink
                   [(''region_name'', PyStr ''eu-west-1''), (''aws_partition'', PyStr ''aws''),
                    (''job_definition_arn'',
                     PyStr ''arn:aws:batch:eu-west-1:123456789012:job-definition/hello-world:1'')],
                 LinkPersist BatchJobQueueLink
                   [(''region_name'', PyStr ''eu-west-1''), (''aws_partition'', PyStr ''aws''),
                    (''job_queue_arn'',
                     PyStr ''arn:aws:batch:eu-west-1:123456789012:job-queue/queue'')],
                 WaitersWaitForJob (BatchWaiters 7) ''8ba9d676''] \<rparr>) \<and>
   fst (monitor_job waiters_failing_env
          (fresh (example_operator (Some ''8ba9d676'') None True))) = Inr () \<and>
   wait_events (trace (snd (monitor_job waiters_failing_env
          (fresh (example_operator (Some ''8ba9d676'') None True)))))
     = [HookWaitForJob ''8ba9d676'']"
proof -
  let ?t1 = "[HookGetJobDescription ''8ba9d676'',
              Log INFO ''AWS Batch job (%s) Job Definition ARN: %r, Job Queue ARN: %r''
                [PyStr ''8ba9d676'',
                 PyStr ''arn:aws:batch:eu-west-1:123456789012:job-definition/hello-world:1'',
                 PyStr ''arn:aws:batch:eu-west-1:123456789012:job-queue/queue''],
              LinkPersist BatchJobDefinitionLink
                [(''region_name'', PyStr ''eu-west-1''), (''aws_partition'', PyStr ''aws''),
                 (''job_definition_arn'',
                  PyStr ''arn:aws:batch:eu-west-1:123456789012:job-definition/hello-world:1'')],
              LinkPersist BatchJobQueueLink
                [(''region_name'', PyStr ''eu-west-1''), (''aws_partition'', PyStr ''aws''),
                 (''job_queue_arn'',
                  PyStr ''arn:aws:batch:eu-west-1:123456789012:job-queue/queue'')]]"
  have fields: "job_id (self (fresh (example_operator (Some ''8ba9d676'') w True)))
                  = Some ''8ba9d676'' \<and>
                ''8ba9d676'' \<noteq> [] \<and>
                waiters (self (fresh (example_operator (Some ''8ba9d676'') w True))) = w" for w
    by (simp add: fresh_def example_operator_def BatchOperator_init_def)
  have lookup: "monitor_arns waiters_failing_env ''8ba9d676''
                  (fresh (example_operator (Some ''8ba9d676'') w True))
                = (Inr (), \<lparr> self = example_operator (Some ''8ba9d676'') w True,
                             remote = 1, trace = ?t1 \<rparr>)" for w
    by (simp add: monitor_arns_def call_def waiters_failing_env_def running_env_def
                  scripted_env_def fresh_def full_description_def log_info_def persist_def
                  emit_def)
  have wop: "waiters_wait_for_job waiters_failing_env w jid n
               = (Inl (WaiterError ''Max attempts exceeded''), Suc n)" for w jid n
    by (simp add: waiters_failing_env_def)
  have hop: "hook_wait_for_job waiters_failing_env jid n = (Inr (), Suc n)" for jid n
    by (simp add: waiters_failing_env_def running_env_def scripted_env_def)
  have after: "fst (monitor_after_wait waiters_failing_env ''8ba9d676'' s2) = Inr ()"
    if "remote s2 = Suc (Suc 0)" for s2 :: "nat sys"
    using that
    by (simp add: monitor_after_wait_def monitor_awslogs_def monitor_check_def
                  hook_check_job_success_def call_def log_info_def emit_def
                  waiters_failing_env_def running_env_def scripted_env_def
                  succeeded_description_def)
  have start: "wait_events (trace (fresh op)) = []" for op
    by (simp add: fresh_def wait_events_def)
  have with_waiters:
    "monitor_job waiters_failing_env
       (fresh (example_operator (Some ''8ba9d676'') (Some (BatchWaiters 7)) True))
     = (Inl (WaiterError ''Max attempts exceeded''),
        \<lparr> self = example_operator (Some ''8ba9d676'') (Some (BatchWaiters 7)) True,
          remote = 2, trace = ?t1 @ [WaitersWaitForJob (BatchWaiters 7) ''8ba9d676''] \<rparr>)"
    using monitor_job_one_wait_strategy
            [where env = waiters_failing_env
               and s = "fresh (example_operator (Some ''8ba9d676'') (Some (BatchWaiters 7)) True)"]
          fields [of "Some (BatchWaiters 7)"] lookup [of "Some (BatchWaiters 7)"]
    by (simp add: wop)
  note poller = monitor_job_one_wait_strategy
                  [where env = waiters_failing_env
                     and s = "fresh (example_operator (Some ''8ba9d676'') None True)"]
  have returned:
    "fst (monitor_job waiters_failing_env
            (fresh (example_operator (Some ''8ba9d676'') None True))) = Inr ()"
    using poller [THEN conjunct2] fields [of None] lookup [of None]
    by (simp add: hop after)
  have polled:
    "wait_events (trace (snd (monitor_job waiters_failing_env
            (fresh (example_operator (Some ''8ba9d676'') None True)))))
       = [HookWaitForJob ''8ba9d676'']"
    using poller [THEN conjunct1] fields [of None] lookup [of None]
    by (simp add: start)
  show ?thesis
    using with_waiters returned polled by simp
qed

text \<open>The result, the operator and the remote state that a phase leaves do not depend on
  the trace it started with.\<close>

lemma monitor_wait_outcome:
  assumes "self s = self t" and "remote s = remote t"
  shows "outcome (monitor_wait env jid s) = outcome (monitor_wait env jid t)"
  using assms
  by (simp add: outcome_def monitor_wait_def call_def split: prod.splits option.splits)

lemma monitor_awslogs_outcome:
  assumes "self s = self t" and "remote s = remote t"
  shows "outcome (monitor_awslogs env jid s) = outcome (monitor_awslogs env jid t)"
  using assms
  by (simp add: outcome_def monitor_awslogs_def call_def log_info_def persist_def emit_def
           split: prod.splits sum.splits option.splits)

lemma monitor_check_outcome:
  assumes "self s = self t" and "remote s = remote t"
  shows "outcome (monitor_check env jid s) = outcome (monitor_check env jid t)"
  using assms
  by (simp add: outcome_def monitor_check_def call_def log_info_def emit_def
           split: prod.splits sum.splits)

lemma monitor_rest_outcome:
  assumes "self s = self t" and "remote s = remote t"
  shows "outcome (monitor_rest env jid s) = outcome (monitor_rest env jid t)"
proof -
  obtain r2 s2 where ws: "monitor_wait env jid s = (r2, s2)"
    by (cases "monitor_wait env jid s")
  obtain q2 t2 where wt: "monitor_wait env jid t = (q2, t2)"
    by (cases "monitor_wait env jid t")
  have "outcome (r2, s2) = outcome (q2, t2)"
    using monitor_wait_outcome [OF assms, of env jid] ws wt by simp
  then have w: "q2 = r2" "self s2 = self t2" "remote s2 = remote t2"
    by (simp_all add: outcome_def)
  show ?thesis
  proof (cases r2)
    case (Inl e)
    with w ws wt show ?thesis by (simp add: monitor_rest_def outcome_def)
  next
    case (Inr u)
    obtain r3 s3 where ls: "monitor_awslogs env jid s2 = (r3, s3)"
      by (cases "monitor_awslogs env jid s2")
    obtain q3 t3 where lt: "monitor_awslogs env jid t2 = (q3, t3)"
      by (cases "monitor_awslogs env jid t2")
    have "outcome (r3, s3) = outcome (q3, t3)"
      using monitor_awslogs_outcome [OF w(2,3), of env jid] ls lt by simp
    then have l: "q3 = r3" "self s3 = self t3" "remote s3 = remote t3"
      by (simp_all add: outcome_def)
    show ?thesis
    proof (cases r3)
      case (Inl e)
      with Inr w ws wt l ls lt show ?thesis by (simp add: monitor_rest_def outcome_def)
    next
      case r3: (Inr u')
      have "outcome (monitor_check env jid s3) = outcome (monitor_check env jid t3)"
        by (rule monitor_check_outcome [OF l(2,3)])
      with Inr r3 w ws wt l ls lt show ?thesis by (simp add: monitor_rest_def)
    qed
  qed
qed

text \<open>With a complete description the lookup logs and persists the two ARNs, and the rest
  of \<^verbatim>\<open>monitor_job\<close> ends as it does from the remote state the description left.\<close>

lemma monitor_job_complete_description:
  assumes "job_id (self s) = Some jid" and "jid \<noteq> []"
      and "hook_get_job_description env jid (remote s) = (Inr job_desc, r1)"
      and "map_of job_desc ''jobDefinition'' = Some d" and "map_of job_desc ''jobQueue'' = Some q"
  shows "outcome (monitor_job env s) = outcome (monitor_rest env jid (s\<lparr>remote := r1\<rparr>))"
proof -
  obtain s1 where s1: "monitor_arns env jid s = (Inr (), s1)"
    and "self s1 = self s" and "remote s1 = r1"
    using assms
    by (simp add: monitor_arns_def call_def log_info_def persist_def emit_def)
  then show ?thesis
    using assms monitor_rest_outcome [of s1 "s\<lparr>remote := r1\<rparr>" env jid]
    by (simp add: monitor_job_def)
qed

text \<open>C6: when the description fetched at the start of \<^verbatim>\<open>monitor_job\<close> lacks
  \<^verbatim>\<open>jobDefinition\<close> or \<^verbatim>\<open>jobQueue\<close>, the method logs the warning and goes on with the wait
  phase; nothing is raised by the lookup.  The result, the operator and the remote state
  at the end are those of the wait, log-lookup and check phases run from the remote state
  the description left, whatever the description held.\<close>

theorem monitor_job_missing_arns:
  assumes "job_id (self s) = Some jid" and "jid \<noteq> []"
      and "hook_get_job_description env jid (remote s) = (Inr job_desc, r1)"
      and "map_of job_desc ''jobDefinition'' = None \<or> map_of job_desc ''jobQueue'' = None"
  shows "monitor_job env s =
           monitor_rest env jid
             (s\<lparr>remote := r1,
                trace := trace s @ [HookGetJobDescription jid,
                                    Log WARNING arn_warning [PyStr jid]]\<rparr>) \<and>
         outcome (monitor_job env s) = outcome (monitor_rest env jid (s\<lparr>remote := r1\<rparr>))"
proof -
  let ?s1 = "s\<lparr>remote := r1,
                trace := trace s @ [HookGetJobDescription jid,
                                    Log WARNING arn_warning [PyStr jid]]\<rparr>"
  have "monitor_arns env jid s = (Inr (), ?s1)"
    using assms(3,4)
    by (auto simp add: monitor_arns_def call_def log_warning_def emit_def
             split: option.splits)
  then have run: "monitor_job env s = monitor_rest env jid ?s1"
    using assms(1,2) by (simp add: monitor_job_def)
  moreover have "outcome (monitor_rest env jid ?s1)
                   = outcome (monitor_rest env jid (s\<lparr>remote := r1\<rparr>))"
    by (rule monitor_rest_outcome) simp_all
  ultimately show ?thesis by simp
qed

theorem monitor_job_missing_arns_witness:
  "monitor_job (running_env [] [(''jobId'', ''8ba9d676''), (''status'', ''SUCCEEDED'')]
                  succeeded_description)
     (fresh (example_operator (Some ''8ba9d676'') None True))
   = (Inr (),
      \<lparr> self = example_operator (Some ''8ba9d676'') None True,
        remote = 4,
        trace = [HookGetJobDescription ''8ba9d676'',
                 Log WARNING arn_warning [PyStr ''8ba9d676''],
                 HookWaitForJob ''8ba9d676'',
                 HookGetJobAwslogsInfo ''8ba9d676'',
                 HookCheckJobSuccess ''8ba9d676'',
                 Log INFO ''AWS Batch job (%s) succeeded'' [PyStr ''8ba9d676'']] \<rparr>)"
proof -
  let ?env = "running_env [] [(''jobId'', ''8ba9d676''), (''status'', ''SUCCEEDED'')]
                succeeded_description"
  let ?s = "fresh (example_operator (Some ''8ba9d676'') None True)"
  have h1: "job_id (self ?s) = Some ''8ba9d676''"
    by (simp add: fresh_def example_operator_def BatchOperator_init_def)
  have h2: "''8ba9d676'' \<noteq> []"
    by simp
  have h3: "hook_get_job_description ?env ''8ba9d676'' (remote ?s)
              = (Inr [(''jobId'', ''8ba9d676''), (''status'', ''SUCCEEDED'')], 1)"
    by (simp add: running_env_def scripted_env_def fresh_def)
  have h4: "map_of [(''jobId'', ''8ba9d676''), (''status'', ''SUCCEEDED'')] ''jobDefinition'' = None
            \<or> map_of [(''jobId'', ''8ba9d676''), (''status'', ''SUCCEEDED'')] ''jobQueue'' = None"
    by simp
  have rest: "monitor_rest ?env ''8ba9d676''
                \<lparr> self = example_operator (Some ''8ba9d676'') None True, remote = Suc 0, trace = tr \<rparr>
              = (Inr (),
                 \<lparr> self = example_operator (Some ''8ba9d676'') None True, remote = 4,
                   trace = tr @ [HookWaitForJob ''8ba9d676'',
                                 HookGetJobAwslogsInfo ''8ba9d676'',
                                 HookCheckJobSuccess ''8ba9d676'',
                                 Log INFO ''AWS Batch job (%s) succeeded''
                                   [PyStr ''8ba9d676'']] \<rparr>)" for tr
    by (simp add: monitor_rest_def monitor_wait_def monitor_awslogs_def monitor_check_def
                  hook_check_job_success_def call_def log_info_def emit_def
                  running_env_def scripted_env_def succeeded_description_def
                  example_operator_def BatchOperator_init_def)
  show ?thesis
    using monitor_job_missing_arns [OF h1 h2 h3 h4]
    by (simp add: fresh_def rest)
qed




section \<open>\<^verbatim>\<open>execute\<close>\<close>

lemma submit_job_monitor_calls:
  "monitor_calls (trace (snd (submit_job env s))) = monitor_calls (trace s)"
proof (cases rule: submit_job_cases [of env s])
  case (raises e' r')
  then show ?thesis
    by (simp add: submit_job_raises monitor_calls_append monitor_calls_call_events
                  monitor_calls_error_events)
next
  case (key_error response r')
  then show ?thesis
    by (simp add: submit_job_key_error monitor_calls_append monitor_calls_call_events)
next
  case (returns response r' jid)
  then show ?thesis
    by (simp add: submit_job_returns monitor_calls_append monitor_calls_call_events
                  monitor_calls_started_events)
qed

text \<open>C4: \<^verbatim>\<open>execute\<close> runs \<^verbatim>\<open>submit_job\<close> first, and an exception of it ends
  \<^verbatim>\<open>execute\<close>.  With \<^verbatim>\<open>wait_for_completion\<close> false, \<^verbatim>\<open>execute\<close> returns the job
  identifier in the state \<^verbatim>\<open>submit_job\<close> left, and none of the calls of \<^verbatim>\<open>monitor_job\<close>
  was made.  With \<^verbatim>\<open>wait_for_completion\<close> true, \<^verbatim>\<open>monitor_job\<close> runs from the state
  \<^verbatim>\<open>submit_job\<close> left, and \<^verbatim>\<open>execute\<close> returns the job identifier in the state
  \<^verbatim>\<open>monitor_job\<close> left if \<^verbatim>\<open>monitor_job\<close> returned, and raises its exception if not.\<close>

theorem execute_submit_then_monitor:
  "(case submit_job env s of
      (Inl e, s1) \<Rightarrow> execute env s = (Inl e, s1)
    | (Inr u, s1) \<Rightarrow>
        (\<not> wait_for_completion (self s) \<longrightarrow>
           execute env s = (Inr (job_id (self s1)), s1) \<and>
           monitor_calls (trace (snd (execute env s))) = monitor_calls (trace s)) \<and>
        (wait_for_completion (self s) \<longrightarrow>
           (case monitor_job env s1 of
              (Inl e, s2) \<Rightarrow> execute env s = (Inl e, s2)
            | (Inr u, s2) \<Rightarrow> execute env s = (Inr (job_id (self s1)), s2))))"
proof (cases "submit_job env s")
  case submit: (Pair r1 s1)
  have wfc: "wait_for_completion (self s1) = wait_for_completion (self s)"
    using submit_job_self [of env s] submit
    by (cases "self s") (simp, metis BatchOperator.select_convs(10) BatchOperator.surjective
                                     BatchOperator.update_convs(1))
  have quiet: "monitor_calls (trace s1) = monitor_calls (trace s)"
    using submit_job_monitor_calls [of env s] submit by simp
  show ?thesis
  proof (cases r1)
    case (Inl e)
    with submit show ?thesis by (simp add: execute_def)
  next
    case (Inr u)
    show ?thesis
    proof (cases "monitor_job env s1")
      case monitor: (Pair r2 s2)
      have "self s2 = self s1"
        using monitor_job_self [of env s1] monitor by simp
      with submit Inr monitor wfc quiet show ?thesis
        by (cases r2) (simp_all add: execute_def)
    qed
  qed
qed

theorem execute_submit_then_monitor_witness:
  "fst (execute (running_env [(''jobId'', ''8ba9d676'')] full_description succeeded_description)
          (fresh (example_operator None None False))) = Inr (Some ''8ba9d676'') \<and>
   monitor_calls (trace (snd (execute
          (running_env [(''jobId'', ''8ba9d676'')] full_description succeeded_description)
          (fresh (example_operator None None False))))) = 0 \<and>
   fst (execute (running_env [(''jobId'', ''8ba9d676'')] full_description succeeded_description)
          (fresh (example_operator None None True))) = Inr (Some ''8ba9d676'') \<and>
   monitor_calls (trace (snd (execute
          (running_env [(''jobId'', ''8ba9d676'')] full_description succeeded_description)
          (fresh (example_operator None None True))))) = 4 \<and>
   fst (execute (running_env [(''jobId'', ''8ba9d676'')] full_description failed_description)
          (fresh (example_operator None None True)))
     = Inl (JobFailedError (Some ''FAILED'') (Some ''Essential container in task exited''))"
proof -
  let ?ok = "running_env [(''jobId'', ''8ba9d676'')] full_description succeeded_description"
  let ?ko = "running_env [(''jobId'', ''8ba9d676'')] full_description failed_description"
  let ?n = "fresh (example_operator None None False)"
  let ?w = "fresh (example_operator None None True)"
  have call: "client_submit_job (running_env [(''jobId'', ''8ba9d676'')] first final)
                (submit_kwargs (self (fresh op))) (remote (fresh op))
                = (Inr [(''jobId'', ''8ba9d676'')], 1)" for first final op
    by (simp add: running_env_def scripted_env_def fresh_def)
  have jid: "map_of [(''jobId'', ''8ba9d676'')] ''jobId'' = Some ''8ba9d676''"
    by simp
  note submit = submit_job_returns [OF call jid]
  have no_wait: "\<not> wait_for_completion (self ?n)"
    by (simp add: fresh_def example_operator_def BatchOperator_init_def)
  have wait: "wait_for_completion (self ?w)"
    by (simp add: fresh_def example_operator_def BatchOperator_init_def)
  have without: "fst (execute ?ok ?n) = Inr (Some ''8ba9d676'') \<and>
                 monitor_calls (trace (snd (execute ?ok ?n))) = 0"
    using execute_submit_then_monitor [where env = ?ok and s = ?n] no_wait
    by (simp add: submit)
       (simp add: fresh_def monitor_calls_def submit_call_events_def submit_started_events_def)
  have run: "fst (execute env ?w) =
               (case fst (monitor_job env (snd (submit_job env ?w))) of
                  Inl e \<Rightarrow> Inl e
                | Inr u \<Rightarrow> Inr (job_id (self (snd (submit_job env ?w))))) \<and>
             trace (snd (execute env ?w)) = trace (snd (monitor_job env (snd (submit_job env ?w))))"
    if "fst (submit_job env ?w) = Inr ()" for env
    using execute_submit_then_monitor [where env = env and s = ?w] wait that
    by (cases "submit_job env ?w"; cases "monitor_job env (snd (submit_job env ?w))")
       (auto split: sum.splits)
  have monitor_ok:
    "fst (monitor_job ?ok (snd (submit_job ?ok ?w))) = Inr () \<and>
     monitor_calls (trace (snd (monitor_job ?ok (snd (submit_job ?ok ?w))))) = 4"
    by (simp add: submit)
       (simp add: monitor_job_def monitor_rest_def monitor_arns_def monitor_wait_def
                  monitor_awslogs_def monitor_check_def hook_check_job_success_def
                  call_def log_info_def persist_def emit_def
                  running_env_def scripted_env_def full_description_def
                  succeeded_description_def fresh_def example_operator_def
                  BatchOperator_init_def monitor_calls_def submit_call_events_def
                  submit_started_events_def)
  have monitor_ko:
    "fst (monitor_job ?ko (snd (submit_job ?ko ?w)))
       = Inl (JobFailedError (Some ''FAILED'') (Some ''Essential container in task exited''))"
    by (simp add: submit)
       (simp add: monitor_job_def monitor_rest_def monitor_arns_def monitor_wait_def
                  monitor_awslogs_def monitor_check_def hook_check_job_success_def
                  call_def log_info_def persist_def emit_def
                  running_env_def scripted_env_def full_description_def
                  failed_description_def fresh_def example_operator_def
                  BatchOperator_init_def)
  have submitted: "fst (submit_job (running_env [(''jobId'', ''8ba9d676'')] first final) ?w)
                     = Inr () \<and>
                   job_id (self (snd (submit_job
                     (running_env [(''jobId'', ''8ba9d676'')] first final) ?w)))
                     = Some ''8ba9d676''" for first final
    by (simp add: submit)
  show ?thesis
    using without run [of ?ok] run [of ?ko] monitor_ok monitor_ko submitted
    by simp
qed

section \<open>\<^verbatim>\<open>on_kill\<close>\<close>

lemma terminate_calls_append:
  "terminate_calls (xs @ ys) = terminate_calls xs + terminate_calls ys"
  by (simp add: terminate_calls_def)

text \<open>What \<^verbatim>\<open>on_kill\<close> does in any state: one call of the client's
  \<^verbatim>\<open>terminate_job\<close>, with \<^verbatim>\<open>jobId\<close> the \<^verbatim>\<open>job_id\<close> field as it is and the reason
  \<^verbatim>\<open>Task killed by the user\<close>; an exception of the client propagates unchanged, and when
  the client returns, the response is logged.\<close>

lemma on_kill_result:
  "(case client_terminate_job env (terminate_kwargs (self s)) (remote s) of
      (Inl e, r') \<Rightarrow>
        on_kill env s =
          (Inl e,
           s\<lparr>remote := r',
             trace := trace s @ [ClientTerminateJob (terminate_kwargs (self s))]\<rparr>)
    | (Inr response, r') \<Rightarrow>
        on_kill env s =
          (Inr (),
           s\<lparr>remote := r',
             trace := trace s @
               [ClientTerminateJob (terminate_kwargs (self s)),
                Log INFO ''AWS Batch job (%s) terminated: %s''
                  [opt_val (job_id (self s)), PyDict response]]\<rparr>)) \<and>
   terminate_calls (trace (snd (on_kill env s))) = terminate_calls (trace s) + 1 \<and>
   terminate_kwargs (self s) =
     [(''jobId'', opt_val (job_id (self s))), (''reason'', PyStr ''Task killed by the user'')]"
  by (simp add: on_kill_def call_def log_info_def emit_def terminate_calls_def
                terminate_kwargs_def
           split: prod.splits sum.splits)

text \<open>C5: \<^verbatim>\<open>on_kill\<close> with \<^verbatim>\<open>job_id\<close> unset.  The method has no check of its own:
  it calls the client's \<^verbatim>\<open>terminate_job\<close> with \<^verbatim>\<open>jobId=None\<close>, and what the caller sees
  is the client's parameter validation error, not the precondition error that
  \<^verbatim>\<open>monitor_job\<close> raises in the same state before any call.\<close>

theorem on_kill_without_job_id_calls_client:
  "job_id (self (fresh (example_operator None None True))) = None \<and>
   on_kill validating_env (fresh (example_operator None None True))
   = (Inl (ClientError ''ParamValidationError''),
      \<lparr> self = example_operator None None True,
        remote = 0,
        trace = [ClientTerminateJob
                   [(''jobId'', PyNone), (''reason'', PyStr ''Task killed by the user'')]] \<rparr>) \<and>
   monitor_job validating_env (fresh (example_operator None None True))
   = (Inl (AirflowException (Msg ''AWS Batch job - job_id was not found'')),
      \<lparr> self = example_operator None None True, remote = 0, trace = [] \<rparr>)"
  by (simp add: on_kill_def monitor_job_def job_id_not_found_def call_def terminate_kwargs_def
                opt_val_def validating_env_def running_env_def scripted_env_def fresh_def
                example_operator_def BatchOperator_init_def)

end
